theory Spec2Isabelle
  imports Complex_Main
begin

section \<open>Python numbers\<close>

text \<open>
  A Python \<open>int\<close> is an \<^typ>\<open>int\<close>. A finite Python \<open>float\<close> is the rational number
  it denotes. Float arithmetic is IEEE 754 binary64: the exact result rounded to the
  nearest value with a 53-bit significand, ties to even (\<open>rnd\<close>). The exponent is
  bounded below (gradual underflow) but not above: infinities and NaN are outside this
  model, so it speaks about computations whose results stay finite.
\<close>

datatype py_exn = ValueError | OverflowError | KeyError

definition pow2 :: "int \<Rightarrow> rat" where
  "pow2 e = (if 0 \<le> e then 2 ^ nat e else 1 / 2 ^ nat (- e))"

fun bit_length :: "nat \<Rightarrow> nat" where
  "bit_length n = (if n = 0 then 0 else Suc (bit_length (n div 2)))"

declare bit_length.simps [simp del]

text \<open>\<open>ilog2 q\<close> is the integer \<open>e\<close> with \<open>2 ^ e \<le> q < 2 ^ (e + 1)\<close>, for \<open>0 < q\<close>.\<close>

definition ilog2 :: "rat \<Rightarrow> int" where
  "ilog2 q = (if 1 \<le> q then int (bit_length (nat \<lfloor>q\<rfloor>)) - 1
              else - int (bit_length (nat (\<lceil>1 / q\<rceil> - 1))))"

definition round_half_even :: "rat \<Rightarrow> int" where
  "round_half_even q =
     (let f = \<lfloor>q\<rfloor>; d = q - of_int f
      in if d < 1 / 2 then f else if 1 / 2 < d then f + 1 else if even f then f else f + 1)"

definition rnd :: "rat \<Rightarrow> rat" where
  "rnd q =
     (if q = 0 then 0
      else let e = max (ilog2 \<bar>q\<bar>) (- 1022) - 52
           in of_int (round_half_even (q / pow2 e)) * pow2 e)"

definition fadd :: "rat \<Rightarrow> rat \<Rightarrow> rat" where "fadd a b = rnd (a + b)"
definition fsub :: "rat \<Rightarrow> rat \<Rightarrow> rat" where "fsub a b = rnd (a - b)"
definition fmul :: "rat \<Rightarrow> rat \<Rightarrow> rat" where "fmul a b = rnd (a * b)"

text \<open>\<open>a / n\<close> is only ever written behind a guard that makes the divisor non-zero.\<close>

definition fdiv :: "rat \<Rightarrow> rat \<Rightarrow> rat" where "fdiv a b = rnd (a / b)"

text \<open>\<open>float(i)\<close>, the implicit conversion in \<open>i * 0.15\<close>.\<close>

definition float_of_int :: "int \<Rightarrow> rat" where "float_of_int i = rnd (of_int i)"

text \<open>\<open>int(x)\<close> truncates toward zero; \<open>round(x)\<close> rounds half to even.\<close>

definition py_int :: "rat \<Rightarrow> int" where
  "py_int x = (if 0 \<le> x then \<lfloor>x\<rfloor> else \<lceil>x\<rceil>)"

definition py_round :: "rat \<Rightarrow> int" where
  "py_round x = round_half_even x"

text \<open>
  \<open>round(x, n)\<close> rounds the exact value of \<open>x\<close> to \<open>n\<close> decimals, half to even, and
  returns the float nearest to that decimal.
\<close>

definition py_round_n :: "rat \<Rightarrow> nat \<Rightarrow> rat" where
  "py_round_n x n = rnd (of_int (round_half_even (x * 10 ^ n)) / 10 ^ n)"

text \<open>
  \<open>sum(xs)\<close> over floats, added left to right from \<open>0\<close> with a rounding at each step, as
  CPython does up to version 3.11 (later versions compensate the rounding errors of the
  partial sums). No property below depends on the order of summation.
\<close>

definition py_sum :: "rat list \<Rightarrow> rat" where
  "py_sum xs = foldl fadd 0 xs"

definition c0_15 :: rat where "c0_15 = rnd (15 / 100)"
definition c0_3 :: rat where "c0_3 = rnd (3 / 10)"
definition c0_85 :: rat where "c0_85 = rnd (85 / 100)"
definition c6_7 :: rat where "c6_7 = rnd (67 / 10)"

section \<open>Strings of digits\<close>

definition digit_of :: "char \<Rightarrow> int option" where
  "digit_of c = map_of (zip ''0123456789'' [0, 1, 2, 3, 4, 5, 6, 7, 8, 9]) c"

definition digit_char :: "int \<Rightarrow> char" where
  "digit_char d = ''0123456789'' ! nat d"

text \<open>\<open>str(n)\<close> for \<open>0 \<le> n\<close>.\<close>

fun str_nat :: "nat \<Rightarrow> string" where
  "str_nat n = (if n < 10 then [digit_char (int n)]
                else str_nat (n div 10) @ [digit_char (int (n mod 10))])"

declare str_nat.simps [simp del]

definition py_str :: "int \<Rightarrow> string" where
  "py_str i = (if i < 0 then CHR ''-'' # str_nat (nat (- i)) else str_nat (nat i))"

section \<open>Calendar dates\<close>

text \<open>
  \<open>datetime.date\<close>: proleptic Gregorian dates from 0001-01-01 (ordinal 1) to 9999-12-31
  (ordinal \<open>MAXORDINAL\<close>), with the ordinal arithmetic of the \<open>datetime\<close> module.
\<close>

record date =
  year :: int
  month :: int
  day :: int

definition MAXORDINAL :: int where "MAXORDINAL = 3652059"

definition is_leap :: "int \<Rightarrow> bool" where
  "is_leap y = (y mod 4 = 0 \<and> (y mod 100 \<noteq> 0 \<or> y mod 400 = 0))"

definition days_before_year :: "int \<Rightarrow> int" where
  "days_before_year y = (let y1 = y - 1 in y1 * 365 + y1 div 4 - y1 div 100 + y1 div 400)"

definition DAYS_IN_MONTH :: "int list" where
  "DAYS_IN_MONTH = [31, 28, 31, 30, 31, 30, 31, 31, 30, 31, 30, 31]"

definition DAYS_BEFORE_MONTH :: "int list" where
  "DAYS_BEFORE_MONTH = [0, 31, 59, 90, 120, 151, 181, 212, 243, 273, 304, 334]"

definition days_in_month :: "int \<Rightarrow> int \<Rightarrow> int" where
  "days_in_month y m = (if m = 2 \<and> is_leap y then 29 else DAYS_IN_MONTH ! nat (m - 1))"

definition days_before_month :: "int \<Rightarrow> int \<Rightarrow> int" where
  "days_before_month y m =
     DAYS_BEFORE_MONTH ! nat (m - 1) + (if 2 < m \<and> is_leap y then 1 else 0)"

definition toordinal :: "date \<Rightarrow> int" where
  "toordinal d = days_before_year (year d) + days_before_month (year d) (month d) + day d"

definition fromordinal :: "int \<Rightarrow> date" where
  "fromordinal n0 =
     (let n = n0 - 1;
          n400 = n div 146097; n = n mod 146097;
          n100 = n div 36524; n = n mod 36524;
          n4 = n div 1461; n = n mod 1461;
          n1 = n div 365; n = n mod 365;
          y = n400 * 400 + 1 + n100 * 100 + n4 * 4 + n1
      in if n1 = 4 \<or> n100 = 4 then \<lparr>year = y - 1, month = 12, day = 31\<rparr>
         else let leapyear = (n1 = 3 \<and> (n4 \<noteq> 24 \<or> n100 = 3));
                  m = (n + 50) div 32;
                  preceding = DAYS_BEFORE_MONTH ! nat (m - 1)
                              + (if 2 < m \<and> leapyear then 1 else 0)
              in if n < preceding
                 then let m' = m - 1;
                          preceding' = preceding - (DAYS_IN_MONTH ! nat (m' - 1)
                                       + (if m' = 2 \<and> leapyear then 1 else 0))
                      in \<lparr>year = y, month = m', day = n - preceding' + 1\<rparr>
                 else \<lparr>year = y, month = m, day = n - preceding + 1\<rparr>)"

text \<open>The constructor \<open>date(y, m, d)\<close> raises \<open>ValueError\<close> outside the calendar.\<close>

definition make_date :: "int \<Rightarrow> int \<Rightarrow> int \<Rightarrow> py_exn + date" where
  "make_date y m d =
     (if 1 \<le> y \<and> y \<le> 9999 \<and> 1 \<le> m \<and> m \<le> 12 \<and> 1 \<le> d \<and> d \<le> days_in_month y m
      then Inr \<lparr>year = y, month = m, day = d\<rparr> else Inl ValueError)"

text \<open>\<open>d + timedelta(days=n)\<close> raises \<open>OverflowError\<close> when the result leaves the calendar.\<close>

definition date_add :: "date \<Rightarrow> int \<Rightarrow> py_exn + date" where
  "date_add d n =
     (let ordinal = toordinal d + n
      in if 0 < ordinal \<and> ordinal \<le> MAXORDINAL then Inr (fromordinal ordinal)
         else Inl OverflowError)"

text \<open>
  \<open>datetime.strptime(s, "%Y-%m-%d")\<close>. The format compiles to a year of exactly four
  digits, a month \<open>1[0-2]|0[1-9]|[1-9]\<close> and a day \<open>3[0-1]|[1-2]\d|0[1-9]|[1-9]| [1-9]\<close>,
  joined by \<open>-\<close>; the whole string must be consumed. Strings are strings of ASCII
  characters here, so the digits are \<open>0\<close> to \<open>9\<close>.
\<close>

definition month_token :: "string \<Rightarrow> int option" where
  "month_token s =
     (case s of
        [a] \<Rightarrow> (case digit_of a of Some v \<Rightarrow> if 1 \<le> v then Some v else None | None \<Rightarrow> None)
      | [a, b] \<Rightarrow>
          (case (digit_of a, digit_of b) of
             (Some u, Some v) \<Rightarrow>
               if u = 1 \<and> v \<le> 2 then Some (10 + v)
               else if u = 0 \<and> 1 \<le> v then Some v else None
           | _ \<Rightarrow> None)
      | _ \<Rightarrow> None)"

definition day_token :: "string \<Rightarrow> int option" where
  "day_token s =
     (case s of
        [a] \<Rightarrow> (case digit_of a of Some v \<Rightarrow> if 1 \<le> v then Some v else None | None \<Rightarrow> None)
      | [a, b] \<Rightarrow>
          (case digit_of b of
             None \<Rightarrow> None
           | Some v \<Rightarrow>
               (case digit_of a of
                  Some u \<Rightarrow>
                    if u = 3 \<and> v \<le> 1 then Some (30 + v)
                    else if u = 1 \<or> u = 2 then Some (10 * u + v)
                    else if u = 0 \<and> 1 \<le> v then Some v else None
                | None \<Rightarrow> if a = CHR '' '' \<and> 1 \<le> v then Some v else None))
      | _ \<Rightarrow> None)"

definition year_token :: "string \<Rightarrow> int option" where
  "year_token s =
     (case map digit_of s of
        [Some a, Some b, Some c, Some d] \<Rightarrow> Some (1000 * a + 100 * b + 10 * c + d)
      | _ \<Rightarrow> None)"

definition strptime :: "string \<Rightarrow> py_exn + date" where
  "strptime s =
     (let ys = takeWhile (\<lambda>c. c \<noteq> CHR ''-'') s;
          r1 = drop (Suc (length ys)) s;
          ms = takeWhile (\<lambda>c. c \<noteq> CHR ''-'') r1;
          ds = drop (Suc (length ms)) r1
      in if length ys < length s \<and> length ms < length r1
         then (case (year_token ys, month_token ms, day_token ds) of
                 (Some y, Some m, Some d) \<Rightarrow> make_date y m d
               | _ \<Rightarrow> Inl ValueError)
         else Inl ValueError)"

text \<open>
  \<open>d.strftime("%Y-%m-%d")\<close>, zero-padded. The year is written with four digits; for
  years below 1000 the C library of some platforms leaves the leading zeros out.
\<close>

definition strftime :: "date \<Rightarrow> string" where
  "strftime d =
     [digit_char (year d div 1000 mod 10), digit_char (year d div 100 mod 10),
      digit_char (year d div 10 mod 10), digit_char (year d mod 10), CHR ''-'',
      digit_char (month d div 10), digit_char (month d mod 10), CHR ''-'',
      digit_char (day d div 10), digit_char (day d mod 10)]"

section \<open>The data model\<close>

text \<open>
  The records of \<open>data.json\<close> are dictionaries. A key that the code reads with
  \<open>.get(key, default)\<close> is an optional field; \<open>d[key]\<close> on an absent key raises
  \<open>KeyError\<close>. The tank's key \<open>id\<close> is the field \<open>tank_ident\<close>, which every tank
  carries. A key is present with a value or absent (\<open>None\<close>). The keys \<open>status\<close>,
  \<open>days_since_cleaned\<close> and \<open>days_until_maintenance\<close> are the ones that
  \<open>get_single_tank\<close> and \<open>get_all_tanks_with_status\<close> add to a stored tank.
\<close>

record reading =
  ph :: "rat option"
  turbidity :: "rat option"
  temperature :: "rat option"

record history_entry = reading +
  entry_date :: "string option"

record location =
  lat :: "rat option"
  lng :: "rat option"
  address :: "string option"

record maintenance_info =
  maint_last_cleaned :: "string option"
  maint_notes :: "string option"

record tank =
  tank_ident :: string
  name :: "string option"
  location :: "location option"
  capacity_liters :: "int option"
  current_level_percent :: "int option"
  last_cleaned :: "string option"
  next_maintenance :: "string option"
  current_readings :: "reading option"
  history :: "history_entry list option"
  maintenance :: "maintenance_info option"
  status :: "string option"
  days_since_cleaned :: "int option"
  days_until_maintenance :: "int option"

record sched_entry =
  sched_tank_id :: "string option"
  cleaning_interval_days :: "int option"
  sched_last_cleaned :: "string option"
  next_scheduled :: "string option"

record alert =
  alert_ident :: string
  acknowledged :: "bool option"

record document =
  tanks :: "tank list option"
  alerts :: "alert list option"
  maintenance_schedule :: "sched_entry list option"

text \<open>\<open>d.get(key, default)\<close>.\<close>

definition get_or :: "'a option \<Rightarrow> 'a \<Rightarrow> 'a" where
  "get_or v dflt = (case v of None \<Rightarrow> dflt | Some x \<Rightarrow> x)"

text \<open>\<open>d[key]\<close>.\<close>

definition subscript :: "'a option \<Rightarrow> py_exn + 'a" where
  "subscript v = (case v of None \<Rightarrow> Inl KeyError | Some x \<Rightarrow> Inr x)"

definition empty_reading :: reading where
  "empty_reading = \<lparr>ph = None, turbidity = None, temperature = None\<rparr>"

section \<open>Status classifier (tank\_service)\<close>

text \<open>\<open>date.today()\<close> is the parameter \<open>today\<close>.\<close>

definition calculate_days_since_cleaned :: "date \<Rightarrow> string \<Rightarrow> py_exn + int" where
  "calculate_days_since_cleaned today s =
     (case strptime s of
        Inl e \<Rightarrow> Inl e
      | Inr cleaned_date \<Rightarrow> Inr (toordinal today - toordinal cleaned_date))"

definition calculate_days_until_maintenance :: "date \<Rightarrow> string \<Rightarrow> py_exn + int" where
  "calculate_days_until_maintenance today s =
     (case strptime s of
        Inl e \<Rightarrow> Inl e
      | Inr maintenance_date \<Rightarrow> Inr (toordinal maintenance_date - toordinal today))"

definition get_tank_status :: "date \<Rightarrow> tank \<Rightarrow> py_exn + string" where
  "get_tank_status today t =
     (let readings = get_or (current_readings t) empty_reading;
          p = get_or (ph readings) 7;
          tb = get_or (turbidity readings) 0
      in case calculate_days_since_cleaned today (get_or (last_cleaned t) ''2024-01-01'') of
           Inl e \<Rightarrow> Inl e
         | Inr days \<Rightarrow>
             Inr (if 5 < tb \<or> p < 65 / 10 \<or> 85 / 10 < p \<or> 30 < days
                  then if 7 < tb \<or> p < 6 \<or> 9 < p \<or> 60 < days
                       then ''critical'' else ''warning''
                  else ''normal''))"

text \<open>The threshold table as the specification words it: escalation first.\<close>

definition status_spec :: "rat \<Rightarrow> rat \<Rightarrow> int \<Rightarrow> string" where
  "status_spec p tb days =
     (if 7 < tb \<or> p < 6 \<or> 9 < p \<or> 60 < days then ''critical''
      else if p < 65 / 10 \<or> 85 / 10 < p \<or> 5 < tb \<or> 30 < days then ''warning''
      else ''normal'')"

text \<open>A stored tank with the given readings and cleaning date, for the examples.\<close>

definition sample_tank :: "rat \<Rightarrow> rat \<Rightarrow> rat \<Rightarrow> string \<Rightarrow> tank" where
  "sample_tank p tb tmp cleaned =
     \<lparr>tank_ident = ''T1'', name = Some ''Tank 1'', location = None,
      capacity_liters = Some 1000, current_level_percent = Some 50,
      last_cleaned = Some cleaned, next_maintenance = Some cleaned,
      current_readings = Some \<lparr>ph = Some p, turbidity = Some tb, temperature = Some tmp\<rparr>,
      history = Some [], maintenance = None, status = None,
      days_since_cleaned = None, days_until_maintenance = None\<rparr>"

section \<open>Store accessor (json\_loader)\<close>

text \<open>
  The module-level cache \<open>_cached_data\<close> and the file \<open>data.json\<close> are the two
  components of the store. Reading and writing the file always succeed in this model.
  A function that reads or writes them takes the store and returns the store it leaves.
\<close>

record store =
  cached_data :: document
  data_file :: document

definition empty_document :: document where
  "empty_document = \<lparr>tanks = None, alerts = None, maintenance_schedule = None\<rparr>"

definition load_data :: "store \<Rightarrow> document \<times> store" where
  "load_data st =
     (if cached_data st = empty_document
      then (data_file st, st\<lparr>cached_data := data_file st\<rparr>)
      else (cached_data st, st))"

definition get_tanks :: "store \<Rightarrow> tank list" where
  "get_tanks st = get_or (tanks (fst (load_data st))) []"

text \<open>The loop \<open>for tank in tanks: if tank['id'] == tank_id\<close>: the first match.\<close>

definition find_tank :: "tank list \<Rightarrow> string \<Rightarrow> tank option" where
  "find_tank ts tid = find (\<lambda>t. tank_ident t = tid) ts"

text \<open>The loop \<open>for entry in schedule_list: if entry.get('tank_id') == tank_id\<close>.\<close>

definition find_schedule :: "sched_entry list \<Rightarrow> string \<Rightarrow> sched_entry option" where
  "find_schedule es tid = find (\<lambda>e. sched_tank_id e = Some tid) es"

definition get_tank_by_id :: "store \<Rightarrow> string \<Rightarrow> tank option" where
  "get_tank_by_id st tid = find_tank (get_tanks st) tid"

definition get_alerts :: "store \<Rightarrow> alert list" where
  "get_alerts st = get_or (alerts (fst (load_data st))) []"

definition get_maintenance_schedule :: "store \<Rightarrow> sched_entry list" where
  "get_maintenance_schedule st = get_or (maintenance_schedule (fst (load_data st))) []"

definition reload_data :: "store \<Rightarrow> document \<times> store" where
  "reload_data st = load_data (st\<lparr>cached_data := empty_document\<rparr>)"

text \<open>
  The result dictionary of \<open>update_maintenance\<close>: \<open>success\<close> false with an \<open>error\<close>
  message, or \<open>success\<close> true with a \<open>message\<close> and the updated \<open>tank\<close>.
\<close>

datatype update_result = Failure string | Success string tank

definition quoted :: "string \<Rightarrow> string" where
  "quoted s = CHR 0x27 # s @ [CHR 0x27]"

definition tank_not_found :: "string \<Rightarrow> string" where
  "tank_not_found tid = ''Tank '' @ quoted tid @ '' not found''"

definition schedule_not_found :: "string \<Rightarrow> string" where
  "schedule_not_found tid = ''Maintenance schedule for '' @ quoted tid @ '' not found''"

definition invalid_date :: "string \<Rightarrow> string" where
  "invalid_date cleaned_date =
     ''Invalid date format for cleaned_date: '' @ quoted cleaned_date
       @ ''. Expected '' @ quoted ''YYYY-MM-DD'' @ ''.''"

text \<open>
  The loops find the first matching dictionary and the code then assigns to its keys:
  the element of the list is changed in place.
\<close>

fun update_first :: "('a \<Rightarrow> bool) \<Rightarrow> ('a \<Rightarrow> 'a) \<Rightarrow> 'a list \<Rightarrow> 'a list" where
  "update_first P f [] = []"
| "update_first P f (x # xs) = (if P x then f x # xs else x # update_first P f xs)"

definition update_maintenance ::
  "store \<Rightarrow> string \<Rightarrow> string \<Rightarrow> string option \<Rightarrow> (py_exn + update_result) \<times> store" where
  "update_maintenance st tid cleaned_date notes =
     (let data = fst (load_data st);
          st1 = snd (load_data st);
          tanks_list = get_or (tanks data) [];
          schedule_list = get_or (maintenance_schedule data) []
      in case find_tank tanks_list tid of
           None \<Rightarrow> (Inr (Failure (tank_not_found tid)), st1)
         | Some tank_obj \<Rightarrow>
             (case find_schedule schedule_list tid of
                None \<Rightarrow> (Inr (Failure (schedule_not_found tid)), st1)
              | Some sched_obj \<Rightarrow>
                  (case strptime cleaned_date of
                     Inl e \<Rightarrow>
                       if e = ValueError then (Inr (Failure (invalid_date cleaned_date)), st1)
                       else (Inl e, st1)
                   | Inr cleaned_dt \<Rightarrow>
                       (case date_add cleaned_dt (get_or (cleaning_interval_days sched_obj) 30) of
                          Inl e \<Rightarrow> (Inl e, st1)
                        | Inr next_scheduled_dt \<Rightarrow>
                            let next_scheduled_str = strftime next_scheduled_dt;
                                sched_new = sched_obj
                                  \<lparr>sched_last_cleaned := Some cleaned_date,
                                   next_scheduled := Some next_scheduled_str\<rparr>;
                                info = get_or (maintenance tank_obj)
                                  \<lparr>maint_last_cleaned = None, maint_notes = None\<rparr>;
                                info1 = info\<lparr>maint_last_cleaned := Some cleaned_date\<rparr>;
                                info2 = (case notes of
                                           None \<Rightarrow> info1
                                         | Some n \<Rightarrow> if n = [] then info1
                                                     else info1\<lparr>maint_notes := Some n\<rparr>);
                                tank_new = tank_obj
                                  \<lparr>last_cleaned := Some cleaned_date,
                                   next_maintenance := Some next_scheduled_str,
                                   maintenance := Some info2\<rparr>;
                                data_new = data
                                  \<lparr>tanks := Some (update_first (\<lambda>t. tank_ident t = tid)
                                                   (\<lambda>_. tank_new) tanks_list),
                                   maintenance_schedule :=
                                     Some (update_first (\<lambda>e. sched_tank_id e = Some tid)
                                             (\<lambda>_. sched_new) schedule_list)\<rparr>
                            in (Inr (Success (''Maintenance updated for '' @ tid) tank_new),
                                \<lparr>cached_data = data_new, data_file = data_new\<rparr>)))))"

text \<open>A store with one tank and its schedule entry, for the examples.\<close>

definition sample_schedule :: "int \<Rightarrow> sched_entry" where
  "sample_schedule n =
     \<lparr>sched_tank_id = Some ''T1'', cleaning_interval_days = Some n,
      sched_last_cleaned = Some ''2025-01-01'', next_scheduled = Some ''2025-01-31''\<rparr>"

definition sample_document :: "int \<Rightarrow> document" where
  "sample_document n =
     \<lparr>tanks = Some [sample_tank 7 0 20 ''2025-01-01''], alerts = Some [],
      maintenance_schedule = Some [sample_schedule n]\<rparr>"

definition warm_store :: "int \<Rightarrow> store" where
  "warm_store n = \<lparr>cached_data = sample_document n, data_file = sample_document n\<rparr>"

definition cold_store :: "int \<Rightarrow> store" where
  "cold_store n = \<lparr>cached_data = empty_document, data_file = sample_document n\<rparr>"

definition unscheduled_store :: store where
  "unscheduled_store =
     \<lparr>cached_data = (sample_document 30)\<lparr>maintenance_schedule := Some []\<rparr>,
      data_file = (sample_document 30)\<lparr>maintenance_schedule := Some []\<rparr>\<rparr>"

section \<open>Raising computations\<close>

text \<open>
  A computation that may raise returns \<open>py_exn + 'a\<close>; \<open>bind_exn\<close> sequences two of
  them, and \<open>traverse\<close> is a comprehension whose element expression may raise.
\<close>

definition bind_exn :: "py_exn + 'a \<Rightarrow> ('a \<Rightarrow> py_exn + 'b) \<Rightarrow> py_exn + 'b" where
  "bind_exn m f = (case m of Inl e \<Rightarrow> Inl e | Inr v \<Rightarrow> f v)"

fun traverse :: "('a \<Rightarrow> py_exn + 'b) \<Rightarrow> 'a list \<Rightarrow> py_exn + 'b list" where
  "traverse f [] = Inr []"
| "traverse f (x # xs) = bind_exn (f x) (\<lambda>y. bind_exn (traverse f xs) (\<lambda>ys. Inr (y # ys)))"

section \<open>Tank views (tank\_service)\<close>

text \<open>
  The body of the loop of \<open>get_all_tanks_with_status\<close>: the dictionary it appends holds
  eleven keys, without \<open>history\<close> and \<open>maintenance\<close>.
\<close>

definition tank_with_status :: "date \<Rightarrow> tank \<Rightarrow> py_exn + tank" where
  "tank_with_status today t =
     bind_exn (subscript (last_cleaned t)) (\<lambda>lc.
     bind_exn (calculate_days_since_cleaned today lc) (\<lambda>dsc.
     bind_exn (subscript (next_maintenance t)) (\<lambda>nm.
     bind_exn (calculate_days_until_maintenance today nm) (\<lambda>dum.
     bind_exn (get_tank_status today t) (\<lambda>s.
     bind_exn (subscript (name t)) (\<lambda>nme.
     bind_exn (subscript (location t)) (\<lambda>loc.
     bind_exn (subscript (capacity_liters t)) (\<lambda>cap.
     bind_exn (subscript (current_level_percent t)) (\<lambda>lvl.
     bind_exn (subscript (current_readings t)) (\<lambda>rd.
       Inr \<lparr>tank_ident = tank_ident t, name = Some nme, location = Some loc,
            capacity_liters = Some cap, current_level_percent = Some lvl,
            last_cleaned = Some lc, next_maintenance = Some nm,
            current_readings = Some rd, history = None, maintenance = None,
            status = Some s, days_since_cleaned = Some dsc,
            days_until_maintenance = Some dum\<rparr>))))))))))"

definition get_all_tanks_with_status :: "date \<Rightarrow> store \<Rightarrow> py_exn + tank list" where
  "get_all_tanks_with_status today st = traverse (tank_with_status today) (get_tanks st)"

text \<open>\<open>get_single_tank\<close>: the stored tank with the three derived keys added.\<close>

definition get_single_tank :: "date \<Rightarrow> store \<Rightarrow> string \<Rightarrow> py_exn + tank option" where
  "get_single_tank today st tid =
     (case get_tank_by_id st tid of
        None \<Rightarrow> Inr None
      | Some t \<Rightarrow>
          bind_exn (subscript (last_cleaned t)) (\<lambda>lc.
          bind_exn (calculate_days_since_cleaned today lc) (\<lambda>dsc.
          bind_exn (subscript (next_maintenance t)) (\<lambda>nm.
          bind_exn (calculate_days_until_maintenance today nm) (\<lambda>dum.
          bind_exn (get_tank_status today t) (\<lambda>s.
            Inr (Some (t\<lparr>status := Some s, days_since_cleaned := Some dsc,
                         days_until_maintenance := Some dum\<rparr>))))))))"

definition get_tank_history :: "store \<Rightarrow> string \<Rightarrow> history_entry list option" where
  "get_tank_history st tid =
     (case get_tank_by_id st tid of None \<Rightarrow> None | Some t \<Rightarrow> Some (get_or (history t) []))"

section \<open>Analytics rollup and trend analyzer (analytics\_service)\<close>

text \<open>
  An issue is the message of the source without its formatting: the kind of the issue
  and the reading that the message quotes.
\<close>

datatype issue =
  PhTooLow rat | PhTooHigh rat | HighTurbidity rat | ElevatedTurbidity rat
  | TemperatureElevated rat

record quality_analysis =
  qa_tank_id :: string
  qa_tank_name :: string
  issues :: "issue list"
  recommendations :: "string list"
  risk_level :: string

definition analyze_water_quality :: "tank \<Rightarrow> py_exn + quality_analysis" where
  "analyze_water_quality t =
     (let readings = get_or (current_readings t) empty_reading;
          p = get_or (ph readings) 7;
          tb = get_or (turbidity readings) 0;
          tmp = get_or (temperature readings) 20;
          (i1, r1) =
            (if p < 65 / 10 then ([PhTooLow p], [''Add pH increaser (sodium carbonate)''])
             else if 85 / 10 < p
               then ([PhTooHigh p], [''Add pH decreaser (sodium bisulfate)''])
             else ([], []));
          (i2, r2) =
            (if 5 < tb
               then (i1 @ [HighTurbidity tb],
                     r1 @ [''Schedule immediate tank cleaning'', ''Check filtration system''])
             else if 3 < tb
               then (i1 @ [ElevatedTurbidity tb], r1 @ [''Monitor turbidity levels closely''])
             else (i1, r1));
          (i3, r3) =
            (if 25 < tmp
               then (i2 @ [TemperatureElevated tmp], r2 @ [''Check cooling systems''])
             else (i2, r2))
      in bind_exn (subscript (name t)) (\<lambda>nme.
           Inr \<lparr>qa_tank_id = tank_ident t, qa_tank_name = nme, issues = i3,
                recommendations = r3,
                risk_level = (if 2 \<le> length i3 then ''critical''
                              else if length i3 = 1 then ''warning'' else ''normal'')\<rparr>))"

record system_analytics =
  total_tanks :: int
  total_capacity_liters :: int
  average_level_percent :: rat
  average_ph :: rat
  average_turbidity :: rat
  average_temperature :: rat
  critical_count :: int
  warning_count :: int
  normal_count :: int
  active_alerts :: int
  critical_tanks :: "(string \<times> string) list"
  warning_tanks :: "(string \<times> string) list"

text \<open>\<open>[t for t in tanks if analyze_water_quality(t)['risk_level'] == level]\<close>.\<close>

fun tanks_at_risk :: "string \<Rightarrow> tank list \<Rightarrow> py_exn + tank list" where
  "tanks_at_risk level [] = Inr []"
| "tanks_at_risk level (t # ts) =
     bind_exn (analyze_water_quality t) (\<lambda>a.
     bind_exn (tanks_at_risk level ts) (\<lambda>rest.
       Inr (if risk_level a = level then t # rest else rest)))"

definition get_system_analytics :: "store \<Rightarrow> py_exn + system_analytics" where
  "get_system_analytics st =
     (let ts = get_tanks st;
          als = get_alerts st
      in bind_exn (traverse (\<lambda>t. subscript (capacity_liters t)) ts) (\<lambda>caps.
         bind_exn (traverse (\<lambda>t. subscript (current_level_percent t)) ts) (\<lambda>lvls.
         bind_exn (traverse (\<lambda>t. bind_exn (subscript (current_readings t))
                                     (\<lambda>r. subscript (ph r))) ts) (\<lambda>ph_values.
         bind_exn (traverse (\<lambda>t. bind_exn (subscript (current_readings t))
                                     (\<lambda>r. subscript (turbidity r))) ts) (\<lambda>turbidity_values.
         bind_exn (traverse (\<lambda>t. bind_exn (subscript (current_readings t))
                                     (\<lambda>r. subscript (temperature r))) ts) (\<lambda>temp_values.
         bind_exn (tanks_at_risk ''critical'' ts) (\<lambda>crit.
         bind_exn (tanks_at_risk ''warning'' ts) (\<lambda>warn.
         bind_exn (traverse (\<lambda>t. bind_exn (subscript (name t))
                                     (\<lambda>n. Inr (tank_ident t, n))) crit) (\<lambda>crit_names.
         bind_exn (traverse (\<lambda>t. bind_exn (subscript (name t))
                                     (\<lambda>n. Inr (tank_ident t, n))) warn) (\<lambda>warn_names.
           Inr \<lparr>total_tanks = int (length ts),
                total_capacity_liters = sum_list caps,
                average_level_percent =
                  py_round_n (if ts = [] then 0
                              else fdiv (of_int (sum_list lvls)) (of_nat (length ts))) 1,
                average_ph =
                  (if ph_values = [] then 0
                   else py_round_n (fdiv (py_sum ph_values) (of_nat (length ph_values))) 2),
                average_turbidity =
                  (if turbidity_values = [] then 0
                   else py_round_n (fdiv (py_sum turbidity_values)
                                      (of_nat (length turbidity_values))) 2),
                average_temperature =
                  (if temp_values = [] then 0
                   else py_round_n (fdiv (py_sum temp_values) (of_nat (length temp_values))) 1),
                critical_count = int (length crit),
                warning_count = int (length warn),
                normal_count = int (length ts) - int (length crit) - int (length warn),
                active_alerts =
                  int (length (filter (\<lambda>a. \<not> get_or (acknowledged a) False) als)),
                critical_tanks = crit_names,
                warning_tanks = warn_names\<rparr>))))))))))"

text \<open>
  The number of water-quality issues of a tank as the specification counts them: pH
  outside [6.5, 8.5], turbidity above 5 or above 3, temperature above 25.
\<close>

definition issue_count :: "tank \<Rightarrow> nat" where
  "issue_count t =
     (let readings = get_or (current_readings t) empty_reading;
          p = get_or (ph readings) 7;
          tb = get_or (turbidity readings) 0;
          tmp = get_or (temperature readings) 20
      in (if p < 65 / 10 \<or> 85 / 10 < p then 1 else 0)
         + (if 5 < tb \<or> 3 < tb then 1 else 0)
         + (if 25 < tmp then 1 else 0))"

text \<open>
  The three trends of \<open>get_trend_analysis\<close> are the same test with different
  thresholds: \<open>recent - older > thr\<close>, else \<open>older - recent > thr\<close>, else stable.
\<close>

definition trend_label :: "rat \<Rightarrow> rat \<Rightarrow> rat \<Rightarrow> string" where
  "trend_label recent older thr =
     (if thr < fsub recent older then ''increasing''
      else if thr < fsub older recent then ''decreasing''
      else ''stable'')"

record trends =
  tr_tank_id :: string
  ph_trend :: string
  turbidity_trend :: string
  temperature_trend :: string
  data_points :: int

datatype trend_result = TankNotFound | InsufficientData | Trends trends

definition get_trend_analysis :: "store \<Rightarrow> string \<Rightarrow> py_exn + trend_result" where
  "get_trend_analysis st tid =
     (case get_tank_by_id st tid of
        None \<Rightarrow> Inr TankNotFound
      | Some t \<Rightarrow>
          let h = get_or (history t) []
          in if length h < 2 then Inr InsufficientData
             else let recent = last h; older = hd h
                  in bind_exn (subscript (ph recent)) (\<lambda>rp.
                     bind_exn (subscript (ph older)) (\<lambda>op.
                     bind_exn (subscript (turbidity recent)) (\<lambda>rt.
                     bind_exn (subscript (turbidity older)) (\<lambda>ot.
                     bind_exn (subscript (temperature recent)) (\<lambda>rc.
                     bind_exn (subscript (temperature older)) (\<lambda>oc.
                       Inr (Trends \<lparr>tr_tank_id = tid,
                              ph_trend = trend_label rp op c0_3,
                              turbidity_trend = trend_label rt ot 1,
                              temperature_trend = trend_label rc oc 1,
                              data_points = int (length h)\<rparr>))))))))"

text \<open>
  The verdict of the specification on one reading: \<open>diff\<close> is last minus first, and a
  trend is flagged only beyond the threshold.
\<close>

definition trend_spec :: "rat \<Rightarrow> rat \<Rightarrow> string" where
  "trend_spec diff thr =
     (if thr < diff then ''increasing'' else if diff < - thr then ''decreasing'' else ''stable'')"

text \<open>A history entry and a cached store whose tank has a given history, for the examples.\<close>

definition sample_entry :: "rat \<Rightarrow> rat \<Rightarrow> rat \<Rightarrow> history_entry" where
  "sample_entry p tb tmp =
     \<lparr>ph = Some p, turbidity = Some tb, temperature = Some tmp, entry_date = None\<rparr>"

definition history_store :: "history_entry list \<Rightarrow> store" where
  "history_store h =
     \<lparr>cached_data = \<lparr>tanks = Some [(sample_tank 7 0 20 ''2025-01-01'')\<lparr>history := Some h\<rparr>],
                      alerts = None, maintenance_schedule = None\<rparr>,
      data_file = empty_document\<rparr>"

section \<open>Fallback predictors (ai\_prediction\_service)\<close>










record daily_forecast =
  fc_day :: int
  fc_date :: string
  predicted_demand_liters :: int

record demand_forecast =
  daily_forecasts :: "daily_forecast list"
  weekly_total_demand_liters :: int
  average_daily_demand_liters :: int

text \<open>The body of the loop \<open>for i in range(7)\<close>.\<close>

definition forecast_day :: "date \<Rightarrow> rat \<Rightarrow> nat \<Rightarrow> py_exn + daily_forecast" where
  "forecast_day today avg_daily_consumption i =
     bind_exn (date_add today (int i + 1)) (\<lambda>d.
       let day_multiplier = (if i < 5 then 1 else c0_85)
       in Inr \<lparr>fc_day = int i + 1, fc_date = strftime d,
               predicted_demand_liters = py_int (fmul avg_daily_consumption day_multiplier)\<rparr>)"

definition avg_daily_consumption :: "tank list \<Rightarrow> rat" where
  "avg_daily_consumption tanks_data =
     fmul (float_of_int (sum_list (map (\<lambda>t. get_or (capacity_liters t) 0) tanks_data))) c0_15"

definition forecast_demand_fallback :: "date \<Rightarrow> tank list \<Rightarrow> py_exn + demand_forecast" where
  "forecast_demand_fallback today tanks_data =
     (let avg = avg_daily_consumption tanks_data
      in bind_exn (traverse (forecast_day today avg) [0..<7]) (\<lambda>forecasts.
           Inr \<lparr>daily_forecasts = forecasts,
                weekly_total_demand_liters = py_int (fmul avg c6_7),
                average_daily_demand_liters = py_int avg\<rparr>))"






section \<open>Ward aggregator (gis\_service)\<close>

text \<open>
  \<open>ward_id = f"ward_{int(lat * 10) % 10}_{int(lng * 10) % 10}"\<close>, with \<open>lat\<close> and \<open>lng\<close>
  read from the tank's \<open>location\<close>, each 0 when absent.
\<close>

definition tank_lat :: "tank \<Rightarrow> rat" where
  "tank_lat t = get_or (lat (get_or (location t) \<lparr>lat = None, lng = None, address = None\<rparr>)) 0"

definition tank_lng :: "tank \<Rightarrow> rat" where
  "tank_lng t = get_or (lng (get_or (location t) \<lparr>lat = None, lng = None, address = None\<rparr>)) 0"

definition ward_index :: "rat \<Rightarrow> int" where
  "ward_index x = py_int (fmul x 10) mod 10"

definition ward_id_of :: "tank \<Rightarrow> string" where
  "ward_id_of t =
     ''ward_'' @ py_str (ward_index (tank_lat t)) @ ''_'' @ py_str (ward_index (tank_lng t))"

record ward =
  w_tanks :: "tank list"
  center_lat :: rat
  center_lng :: rat
  w_total_capacity :: int
  w_avg_ph :: rat
  w_avg_turbidity :: rat
  w_critical_count :: int
  w_warning_count :: int
  w_normal_count :: int

text \<open>
  \<open>ward_data\<close> is a dictionary in insertion order: a list of pairs with distinct keys.
  \<open>add_tank\<close> is the body of the first loop of \<open>get_ward_geojson\<close>.
\<close>

definition new_ward :: "tank \<Rightarrow> ward" where
  "new_ward t =
     \<lparr>w_tanks = [], center_lat = tank_lat t, center_lng = tank_lng t,
      w_total_capacity = 0, w_avg_ph = 0, w_avg_turbidity = 0,
      w_critical_count = 0, w_warning_count = 0, w_normal_count = 0\<rparr>"

definition count_tank :: "tank \<Rightarrow> ward \<Rightarrow> ward" where
  "count_tank t w =
     (let readings = get_or (current_readings t) empty_reading;
          s = get_or (status t) ''normal'';
          w1 = w\<lparr>w_tanks := w_tanks w @ [t],
                 w_total_capacity := w_total_capacity w + get_or (capacity_liters t) 0,
                 w_avg_ph := fadd (w_avg_ph w) (get_or (ph readings) 7),
                 w_avg_turbidity := fadd (w_avg_turbidity w) (get_or (turbidity readings) 0)\<rparr>
      in if s = ''critical'' then w1\<lparr>w_critical_count := w_critical_count w1 + 1\<rparr>
         else if s = ''warning'' then w1\<lparr>w_warning_count := w_warning_count w1 + 1\<rparr>
         else w1\<lparr>w_normal_count := w_normal_count w1 + 1\<rparr>)"

definition add_tank :: "(string \<times> ward) list \<Rightarrow> tank \<Rightarrow> (string \<times> ward) list" where
  "add_tank wd t =
     (let k = ward_id_of t;
          wd1 = (if map_of wd k = None then wd @ [(k, new_ward t)] else wd)
      in map (\<lambda>(k', w). if k' = k then (k', count_tank t w) else (k', w)) wd1)"

definition ward_data :: "tank list \<Rightarrow> (string \<times> ward) list" where
  "ward_data ts = foldl add_tank [] ts"

text \<open>The health score and status of a ward, from the second loop.\<close>

definition ward_health :: "ward \<Rightarrow> int \<times> string" where
  "ward_health w =
     (if 0 < w_critical_count w then (30, ''critical'')
      else if 0 < w_warning_count w then (60, ''warning'')
      else (90, ''normal''))"

definition get_ward_data :: "date \<Rightarrow> store \<Rightarrow> py_exn + (string \<times> ward) list" where
  "get_ward_data today st =
     bind_exn (get_all_tanks_with_status today st) (\<lambda>ts. Inr (ward_data ts))"

text \<open>A tank at given coordinates, for the examples.\<close>

definition tank_at :: "rat \<Rightarrow> rat \<Rightarrow> tank" where
  "tank_at la lo =
     (sample_tank 7 0 20 ''2025-01-01'')
       \<lparr>location := Some \<lparr>lat = Some la, lng = Some lo, address = None\<rparr>\<rparr>"

definition tank_of_capacity :: "int \<Rightarrow> tank" where
  "tank_of_capacity c = (sample_tank 7 0 20 ''2025-01-01'')\<lparr>capacity_liters := Some c\<rparr>"

section \<open>Properties of the status classifier\<close>

text \<open>
  Claim C1. Whenever the cleaning age of a tank is defined (its \<open>last_cleaned\<close>, or the
  default 2024-01-01, is a date), \<open>get_tank_status\<close> returns one of \<open>normal\<close>,
  \<open>warning\<close>, \<open>critical\<close>, and which one is a function of pH (default 7.0), turbidity
  (default 0) and the days since cleaning alone: critical if turbidity > 7, pH < 6.0,
  pH > 9.0 or days > 60; else warning if pH is outside [6.5, 8.5], turbidity > 5 or
  days > 30; else normal.
\<close>

theorem get_tank_status_threshold_table:
  assumes "calculate_days_since_cleaned today (get_or (last_cleaned t) ''2024-01-01'') = Inr days"
  shows "get_tank_status today t =
           Inr (status_spec (get_or (ph (get_or (current_readings t) empty_reading)) 7)
                            (get_or (turbidity (get_or (current_readings t) empty_reading)) 0)
                            days)
         \<and> status_spec p tb n \<in> {''normal'', ''warning'', ''critical''}"
proof -
  have "status_spec p tb n \<in> {''normal'', ''warning'', ''critical''}"
    by (simp add: status_spec_def)
  moreover have "get_tank_status today t =
           Inr (status_spec (get_or (ph (get_or (current_readings t) empty_reading)) 7)
                            (get_or (turbidity (get_or (current_readings t) empty_reading)) 0)
                            days)"
    using assms unfolding get_tank_status_def status_spec_def Let_def
    by (auto simp del: One_nat_def)
  ultimately show ?thesis by simp
qed

text \<open>
  The boundary values of the table, on 2025-07-01: pH 6.5, 6.49, 8.5, 8.51; turbidity 5,
  5.01, 7, 7.01; 30, 31, 60 and 61 days since cleaning.
\<close>

theorem get_tank_status_boundary_values:
  "get_tank_status \<lparr>year = 2025, month = 7, day = 1\<rparr> (sample_tank (65 / 10) 0 20 ''2025-07-01'') = Inr ''normal''
   \<and> get_tank_status \<lparr>year = 2025, month = 7, day = 1\<rparr> (sample_tank (rnd (649 / 100)) 0 20 ''2025-07-01'') = Inr ''warning''
   \<and> get_tank_status \<lparr>year = 2025, month = 7, day = 1\<rparr> (sample_tank (85 / 10) 0 20 ''2025-07-01'') = Inr ''normal''
   \<and> get_tank_status \<lparr>year = 2025, month = 7, day = 1\<rparr> (sample_tank (rnd (851 / 100)) 0 20 ''2025-07-01'') = Inr ''warning''
   \<and> get_tank_status \<lparr>year = 2025, month = 7, day = 1\<rparr> (sample_tank 7 5 20 ''2025-07-01'') = Inr ''normal''
   \<and> get_tank_status \<lparr>year = 2025, month = 7, day = 1\<rparr> (sample_tank 7 (rnd (501 / 100)) 20 ''2025-07-01'') = Inr ''warning''
   \<and> get_tank_status \<lparr>year = 2025, month = 7, day = 1\<rparr> (sample_tank 7 7 20 ''2025-07-01'') = Inr ''warning''
   \<and> get_tank_status \<lparr>year = 2025, month = 7, day = 1\<rparr> (sample_tank 7 (rnd (701 / 100)) 20 ''2025-07-01'') = Inr ''critical''
   \<and> get_tank_status \<lparr>year = 2025, month = 7, day = 1\<rparr> (sample_tank 7 0 20 ''2025-06-01'') = Inr ''normal''
   \<and> get_tank_status \<lparr>year = 2025, month = 7, day = 1\<rparr> (sample_tank 7 0 20 ''2025-05-31'') = Inr ''warning''
   \<and> get_tank_status \<lparr>year = 2025, month = 7, day = 1\<rparr> (sample_tank 7 0 20 ''2025-05-02'') = Inr ''warning''
   \<and> get_tank_status \<lparr>year = 2025, month = 7, day = 1\<rparr> (sample_tank 7 0 20 ''2025-05-01'') = Inr ''critical''"
proof -
  let ?today = "\<lparr>year = 2025, month = 7, day = 1\<rparr>"
  have days: "calculate_days_since_cleaned ?today ''2025-07-01'' = Inr 0"
    "calculate_days_since_cleaned ?today ''2025-06-01'' = Inr 30"
    "calculate_days_since_cleaned ?today ''2025-05-31'' = Inr 31"
    "calculate_days_since_cleaned ?today ''2025-05-02'' = Inr 60"
    "calculate_days_since_cleaned ?today ''2025-05-01'' = Inr 61"
    by code_simp+
  have floats: "rnd (649 / 100) < 65 / 10" "85 / 10 < rnd (851 / 100)"
    "5 < rnd (501 / 100)" "rnd (501 / 100) \<le> 7" "7 < rnd (701 / 100)"
    "6 \<le> rnd (649 / 100)" "rnd (851 / 100) \<le> 9"
    by code_simp+
  have step: "get_tank_status ?today (sample_tank p tb tmp s) = Inr (status_spec p tb n)"
    if "calculate_days_since_cleaned ?today s = Inr n" for p tb tmp s n
    using get_tank_status_threshold_table [of ?today "sample_tank p tb tmp s" n] that
    by (simp add: sample_tank_def get_or_def)
  show ?thesis
    using floats by (simp add: step [OF days(1)] step [OF days(2)] step [OF days(3)]
        step [OF days(4)] step [OF days(5)] status_spec_def)
qed

section \<open>Properties of the maintenance update\<close>

text \<open>
  Helper facts: dictionary lookups, the first-match loops, the date parser and the
  sample stores.
\<close>

lemma get_or_simps [simp]: "get_or None d = d" "get_or (Some x) d = x"
  by (simp_all add: get_or_def)



lemma strptime_raises_ValueError: "strptime s = Inl e \<Longrightarrow> e = ValueError"
  unfolding strptime_def make_date_def Let_def
  by (auto split: if_splits option.splits)

lemma load_data_again: "load_data (snd (load_data st)) = (fst (load_data st), snd (load_data st))"
  by (simp add: load_data_def)

lemma sample_dates:
  "strptime ''2025-06-01'' = Inr \<lparr>year = 2025, month = 6, day = 1\<rparr>"
  "toordinal \<lparr>year = 2025, month = 6, day = 1\<rparr> = 739403"
  "strftime (fromordinal 739433) = ''2025-07-01''"
  "strptime ''9999-12-31'' = Inr \<lparr>year = 9999, month = 12, day = 31\<rparr>"
  "toordinal \<lparr>year = 9999, month = 12, day = 31\<rparr> = 3652059"
  "strptime ''2025-02-30'' = Inl ValueError"
  "strptime ''not-a-date'' = Inl ValueError"
  by code_simp+

lemma sample_lookups:
  "fst (load_data (warm_store n)) = sample_document n"
  "snd (load_data (warm_store n)) = warm_store n"
  "fst (load_data (cold_store n)) = sample_document n"
  "snd (load_data (cold_store n)) = warm_store n"
  "find_tank (get_or (tanks (sample_document n)) []) ''T1'' = Some (sample_tank 7 0 20 ''2025-01-01'')"
  "find_tank (get_or (tanks (sample_document n)) []) ''T9'' = None"
  "find_schedule (get_or (maintenance_schedule (sample_document n)) []) ''T1'' = Some (sample_schedule n)"
  by (simp_all add: load_data_def warm_store_def cold_store_def sample_document_def
      empty_document_def find_tank_def find_schedule_def sample_tank_def sample_schedule_def)




text \<open>
  Claim C4, amended. \<open>update_maintenance\<close> returns the failure value "Tank not found"
  whenever no tank has the id, whatever the date; "Maintenance schedule not found"
  whenever the tank exists and no schedule entry has the id; and "Invalid date format"
  whenever tank and schedule entry exist and \<open>cleaned_date\<close> does not parse. Each is a
  returned value (\<open>Inr\<close>), not a raised exception (\<open>Inl\<close>).
\<close>

theorem update_maintenance_failure_values:
  "(find_tank (get_tanks st) tid = None \<longrightarrow>
      fst (update_maintenance st tid cleaned_date notes) = Inr (Failure (tank_not_found tid)))
   \<and> (find_tank (get_tanks st) tid = Some tank_obj
        \<and> find_schedule (get_maintenance_schedule st) tid = None \<longrightarrow>
      fst (update_maintenance st tid cleaned_date notes) = Inr (Failure (schedule_not_found tid)))
   \<and> (find_tank (get_tanks st) tid = Some tank_obj
        \<and> find_schedule (get_maintenance_schedule st) tid = Some sched_obj
        \<and> strptime cleaned_date = Inl e \<longrightarrow>
      fst (update_maintenance st tid cleaned_date notes) = Inr (Failure (invalid_date cleaned_date)))"
proof (intro conjI impI)
  assume "find_tank (get_tanks st) tid = None"
  then show "fst (update_maintenance st tid cleaned_date notes) = Inr (Failure (tank_not_found tid))"
    by (simp add: update_maintenance_def Let_def get_tanks_def)
next
  assume "find_tank (get_tanks st) tid = Some tank_obj
            \<and> find_schedule (get_maintenance_schedule st) tid = None"
  then show "fst (update_maintenance st tid cleaned_date notes)
               = Inr (Failure (schedule_not_found tid))"
    by (simp add: update_maintenance_def Let_def get_tanks_def get_maintenance_schedule_def)
next
  assume h: "find_tank (get_tanks st) tid = Some tank_obj
            \<and> find_schedule (get_maintenance_schedule st) tid = Some sched_obj
            \<and> strptime cleaned_date = Inl e"
  then have "e = ValueError"
    using strptime_raises_ValueError by blast
  with h show "fst (update_maintenance st tid cleaned_date notes)
                 = Inr (Failure (invalid_date cleaned_date))"
    by (simp add: update_maintenance_def Let_def get_tanks_def get_maintenance_schedule_def)
qed

text \<open>
  One instance of each failure: an unknown tank, a tank without schedule entry, and the
  date 2025-02-30.
\<close>

theorem update_maintenance_failure_examples:
  "fst (update_maintenance (warm_store 30) ''T9'' ''2025-06-01'' None)
     = Inr (Failure (tank_not_found ''T9''))
   \<and> fst (update_maintenance unscheduled_store ''T1'' ''2025-06-01'' None)
     = Inr (Failure (schedule_not_found ''T1''))
   \<and> fst (update_maintenance (warm_store 30) ''T1'' ''2025-02-30'' None)
     = Inr (Failure (invalid_date ''2025-02-30''))"
proof -
  have a: "find_tank (get_tanks (warm_store 30)) ''T9'' = None"
    by (simp add: get_tanks_def sample_lookups)
  have b: "find_tank (get_tanks unscheduled_store) ''T1'' = Some (sample_tank 7 0 20 ''2025-01-01'')
      \<and> find_schedule (get_maintenance_schedule unscheduled_store) ''T1'' = None"
    by (simp add: get_tanks_def get_maintenance_schedule_def unscheduled_store_def load_data_def
        sample_document_def empty_document_def find_tank_def find_schedule_def sample_tank_def)
  have c: "find_tank (get_tanks (warm_store 30)) ''T1'' = Some (sample_tank 7 0 20 ''2025-01-01'')
      \<and> find_schedule (get_maintenance_schedule (warm_store 30)) ''T1'' = Some (sample_schedule 30)
      \<and> strptime ''2025-02-30'' = Inl ValueError"
    by (simp add: get_tanks_def get_maintenance_schedule_def sample_lookups sample_dates)
  show ?thesis
    using update_maintenance_failure_values [of "warm_store 30" "''T9''" "''2025-06-01''" None,
        THEN conjunct1] a
      update_maintenance_failure_values [of unscheduled_store "''T1''" "''2025-06-01''" None
        "sample_tank 7 0 20 ''2025-01-01''", THEN conjunct2, THEN conjunct1] b
      update_maintenance_failure_values [of "warm_store 30" "''T1''" "''2025-02-30''" None
        "sample_tank 7 0 20 ''2025-01-01''" "sample_schedule 30" ValueError,
        THEN conjunct2, THEN conjunct2] c
    by blast
qed

text \<open>
  The claim as stated asks for an invalid-date failure whenever the date does not
  parse. For an unknown tank and an unparseable date the code returns the not-found
  failure: the lookups come first.
\<close>

theorem update_maintenance_not_found_precedes_invalid_date:
  "strptime ''not-a-date'' = Inl ValueError
   \<and> fst (update_maintenance (warm_store 30) ''T9'' ''not-a-date'' None)
       = Inr (Failure (tank_not_found ''T9''))
   \<and> tank_not_found ''T9'' \<noteq> invalid_date ''not-a-date''"
  by (simp add: update_maintenance_def Let_def sample_lookups sample_dates
      tank_not_found_def invalid_date_def quoted_def)

text \<open>
  Claim C9, amended. When \<open>update_maintenance\<close> returns a failure it has written
  nothing: the file is unchanged, the tanks and the schedule that the store serves are
  unchanged, and the store it leaves is the one \<open>load_data\<close> leaves. So the cache is
  unchanged when it was loaded, and holds the unmodified document of the file when it
  was empty.
\<close>

theorem update_maintenance_failure_writes_nothing:
  assumes "fst (update_maintenance st tid cleaned_date notes) = Inr (Failure msg)"
  shows "snd (update_maintenance st tid cleaned_date notes) = snd (load_data st)
         \<and> data_file (snd (update_maintenance st tid cleaned_date notes)) = data_file st
         \<and> get_tanks (snd (update_maintenance st tid cleaned_date notes)) = get_tanks st
         \<and> get_maintenance_schedule (snd (update_maintenance st tid cleaned_date notes))
             = get_maintenance_schedule st
         \<and> cached_data (snd (update_maintenance st tid cleaned_date notes))
             = (if cached_data st = empty_document then data_file st else cached_data st)"
proof -
  have same: "snd (update_maintenance st tid cleaned_date notes) = snd (load_data st)"
    using assms unfolding update_maintenance_def Let_def
    by (auto split: option.splits sum.splits if_splits)
  show ?thesis
    unfolding same
    by (simp add: get_tanks_def get_maintenance_schedule_def load_data_again)
      (simp add: load_data_def)
qed

text \<open>
  A failure on a store whose cache was still empty.
\<close>

theorem update_maintenance_failure_cold_cache:
  "fst (update_maintenance (cold_store 30) ''T9'' ''2025-06-01'' None)
     = Inr (Failure (tank_not_found ''T9''))
   \<and> snd (update_maintenance (cold_store 30) ''T9'' ''2025-06-01'' None) = warm_store 30
   \<and> data_file (snd (update_maintenance (cold_store 30) ''T9'' ''2025-06-01'' None))
       = data_file (cold_store 30)
   \<and> get_tanks (snd (update_maintenance (cold_store 30) ''T9'' ''2025-06-01'' None))
       = get_tanks (cold_store 30)
   \<and> cached_data (snd (update_maintenance (cold_store 30) ''T9'' ''2025-06-01'' None))
       = sample_document 30"
proof -
  have f: "fst (update_maintenance (cold_store 30) ''T9'' ''2025-06-01'' None)
     = Inr (Failure (tank_not_found ''T9''))"
    by (simp add: update_maintenance_def Let_def sample_lookups)
  have after: "snd (update_maintenance (cold_store 30) ''T9'' ''2025-06-01'' None) = warm_store 30"
    using update_maintenance_failure_writes_nothing [OF f] by (simp add: sample_lookups)
  show ?thesis
    unfolding after
    by (simp add: f get_tanks_def sample_lookups) (simp add: warm_store_def cold_store_def)
qed

text \<open>
  The claim as stated fails for the cache: after a failure on a store with an empty
  cache, the cache is no longer what it was before the call.
\<close>

theorem update_maintenance_failure_fills_cache:
  "fst (update_maintenance (cold_store 30) ''T9'' ''2025-06-01'' None)
     = Inr (Failure (tank_not_found ''T9''))
   \<and> cached_data (snd (update_maintenance (cold_store 30) ''T9'' ''2025-06-01'' None))
       \<noteq> cached_data (cold_store 30)"
  by (simp add: update_maintenance_def Let_def sample_lookups)
    (simp add: warm_store_def cold_store_def sample_document_def empty_document_def)

section \<open>Properties of the trend analyzer\<close>

text \<open>
  Rounding to the nearest float is symmetric, so \<open>older - recent\<close> is the negation of
  \<open>recent - older\<close>.
\<close>

lemma round_half_even_minus: "round_half_even (- q) = - round_half_even q"
proof (cases "q = of_int \<lfloor>q\<rfloor>")
  case True
  then obtain k where k: "q = of_int k" by blast
  show ?thesis unfolding k round_half_even_def Let_def
    by (simp flip: of_int_minus)
next
  case False
  then have c: "\<lceil>q\<rceil> = \<lfloor>q\<rfloor> + 1"
    by (metis ceiling_altdef)
  have fl: "\<lfloor>- q\<rfloor> = - \<lfloor>q\<rfloor> - 1" using c by (simp add: floor_minus)
  have lo: "of_int \<lfloor>q\<rfloor> < q" using False by (metis floor_less_cancel floor_of_int less_le of_int_floor_le)
  have hi: "q < of_int \<lfloor>q\<rfloor> + 1" by linarith
  show ?thesis
    unfolding round_half_even_def Let_def fl
    using lo hi by (auto simp: field_simps)
qed

lemma rnd_minus: "rnd (- q) = - rnd q"
  by (simp add: rnd_def Let_def round_half_even_minus)

lemma fsub_swap: "fsub b a = - fsub a b"
  using rnd_minus [of "a - b"] by (simp add: fsub_def)

lemma c0_3_pos: "0 < c0_3"
  unfolding c0_3_def by code_simp

lemma trend_label_cases:
  "0 \<le> thr \<Longrightarrow> trend_label recent older thr =
     (if thr < fsub recent older then ''increasing''
      else if fsub recent older < - thr then ''decreasing'' else ''stable'')"
  using fsub_swap [of recent older] by (auto simp: trend_label_def)

lemma trend_label_spec: "0 \<le> thr \<Longrightarrow> trend_label recent older thr = trend_spec (fsub recent older) thr"
  using fsub_swap [of recent older] by (auto simp: trend_label_def trend_spec_def)

text \<open>
  Claim C7. For a tank of the store, a history of fewer than 2 points gives
  \<open>insufficient_data\<close>. A history of 2 or more points, whose first and last samples
  carry the three readings, gives for each of pH, turbidity and temperature the verdict
  on last minus first with the thresholds 0.3, 1 and 1, and the number of points of the
  history. The inequalities are strict: a difference equal to the threshold, in either
  direction, is stable.
\<close>

theorem get_trend_analysis_verdict:
  assumes "get_tank_by_id st tid = Some t"
  shows "(length (get_or (history t) []) < 2 \<longrightarrow> get_trend_analysis st tid = Inr InsufficientData)
    \<and> (2 \<le> length (get_or (history t) [])
        \<and> ph (last (get_or (history t) [])) = Some rp
        \<and> ph (hd (get_or (history t) [])) = Some op
        \<and> turbidity (last (get_or (history t) [])) = Some rt
        \<and> turbidity (hd (get_or (history t) [])) = Some ot
        \<and> temperature (last (get_or (history t) [])) = Some rc
        \<and> temperature (hd (get_or (history t) [])) = Some oc \<longrightarrow>
        get_trend_analysis st tid =
          Inr (Trends \<lparr>tr_tank_id = tid,
                 ph_trend = trend_spec (fsub rp op) c0_3,
                 turbidity_trend = trend_spec (fsub rt ot) 1,
                 temperature_trend = trend_spec (fsub rc oc) 1,
                 data_points = int (length (get_or (history t) []))\<rparr>))
    \<and> trend_spec c0_3 c0_3 = ''stable'' \<and> trend_spec (- c0_3) c0_3 = ''stable''
    \<and> trend_spec 1 1 = ''stable'' \<and> trend_spec (- 1) 1 = ''stable''"
proof -
  have ties: "trend_spec c0_3 c0_3 = ''stable'' \<and> trend_spec (- c0_3) c0_3 = ''stable''
    \<and> trend_spec 1 1 = ''stable'' \<and> trend_spec (- 1) 1 = ''stable''"
    using c0_3_pos by (simp add: trend_spec_def)
  have short: "length (get_or (history t) []) < 2 \<longrightarrow>
      get_trend_analysis st tid = Inr InsufficientData"
    using assms by (simp add: get_trend_analysis_def Let_def)
  have long: "get_trend_analysis st tid =
          Inr (Trends \<lparr>tr_tank_id = tid,
                 ph_trend = trend_spec (fsub rp op) c0_3,
                 turbidity_trend = trend_spec (fsub rt ot) 1,
                 temperature_trend = trend_spec (fsub rc oc) 1,
                 data_points = int (length (get_or (history t) []))\<rparr>)"
    if "2 \<le> length (get_or (history t) [])"
      "ph (last (get_or (history t) [])) = Some rp"
      "ph (hd (get_or (history t) [])) = Some op"
      "turbidity (last (get_or (history t) [])) = Some rt"
      "turbidity (hd (get_or (history t) [])) = Some ot"
      "temperature (last (get_or (history t) [])) = Some rc"
      "temperature (hd (get_or (history t) [])) = Some oc"
    using assms that c0_3_pos
    by (simp add: get_trend_analysis_def Let_def bind_exn_def subscript_def trend_label_spec)
  from ties short long show ?thesis by blast
qed

text \<open>
  Three samples: pH rises from 7.0 to 7.4, turbidity from 2 to 3 (exactly the threshold),
  temperature falls from 21.5 to 20.
\<close>

lemma sample_floats:
  "c0_3 < fsub (rnd (74 / 10)) 7" "fsub 3 2 = 1" "fsub 20 (215 / 10) = - (3 / 2)"
  unfolding c0_3_def by code_simp+

theorem get_trend_analysis_examples:
  "get_trend_analysis (history_store [sample_entry 7 2 (215 / 10)]) ''T1'' = Inr InsufficientData
   \<and> get_trend_analysis
       (history_store [sample_entry 7 2 (215 / 10), sample_entry 9 9 9,
                       sample_entry (rnd (74 / 10)) 3 20]) ''T1''
     = Inr (Trends \<lparr>tr_tank_id = ''T1'', ph_trend = ''increasing'',
              turbidity_trend = ''stable'', temperature_trend = ''decreasing'',
              data_points = 3\<rparr>)"
proof -
  let ?t = "\<lambda>h. (sample_tank 7 0 20 ''2025-01-01'')\<lparr>history := Some h\<rparr>"
  have found: "get_tank_by_id (history_store h) ''T1'' = Some (?t h)" for h
    by (simp add: get_tank_by_id_def get_tanks_def load_data_def history_store_def
        empty_document_def find_tank_def sample_tank_def)
  have a: "get_trend_analysis (history_store [sample_entry 7 2 (215 / 10)]) ''T1''
             = Inr InsufficientData"
    using get_trend_analysis_verdict [OF found, THEN conjunct1] by simp
  have b: "get_trend_analysis
       (history_store [sample_entry 7 2 (215 / 10), sample_entry 9 9 9,
                       sample_entry (rnd (74 / 10)) 3 20]) ''T1''
     = Inr (Trends \<lparr>tr_tank_id = ''T1'',
              ph_trend = trend_spec (fsub (rnd (74 / 10)) 7) c0_3,
              turbidity_trend = trend_spec (fsub 3 2) 1,
              temperature_trend = trend_spec (fsub 20 (215 / 10)) 1,
              data_points = 3\<rparr>)"
    using get_trend_analysis_verdict [OF found, THEN conjunct2, THEN conjunct1,
        of "[sample_entry 7 2 (215 / 10), sample_entry 9 9 9, sample_entry (rnd (74 / 10)) 3 20]"
          "rnd (74 / 10)" 7 3 2 20 "215 / 10"]
    by (simp add: sample_entry_def)
  show ?thesis
    using a b sample_floats by (simp add: trend_spec_def)
qed

section \<open>Properties of the analytics rollup\<close>

lemma bind_exn_simps [simp]: "bind_exn (Inl e) f = Inl e" "bind_exn (Inr v) f = f v"
  by (simp_all add: bind_exn_def)

lemma subscript_simps [simp]: "subscript None = Inl KeyError" "subscript (Some x) = Inr x"
  by (simp_all add: subscript_def)

lemma analyze_water_quality_risk:
  assumes "analyze_water_quality t = Inr a"
  shows "length (issues a) = issue_count t"
    and "risk_level a = (if 2 \<le> issue_count t then ''critical''
                         else if issue_count t = 1 then ''warning'' else ''normal'')"
proof -
  from assms obtain nme where n: "name t = Some nme"
    by (cases "name t") (simp_all add: analyze_water_quality_def Let_def bind_exn_def
        subscript_def split: prod.splits)
  from assms show len: "length (issues a) = issue_count t"
    unfolding analyze_water_quality_def issue_count_def Let_def
    by (auto simp: n bind_exn_def subscript_def split: if_splits)
  from assms have "risk_level a = (if 2 \<le> length (issues a) then ''critical''
                         else if length (issues a) = 1 then ''warning'' else ''normal'')"
    unfolding analyze_water_quality_def Let_def
    by (auto simp: n bind_exn_def subscript_def split: if_splits prod.splits)
  then show "risk_level a = (if 2 \<le> issue_count t then ''critical''
                         else if issue_count t = 1 then ''warning'' else ''normal'')"
    unfolding len .
qed

lemma tanks_at_risk_critical:
  "tanks_at_risk ''critical'' ts = Inr xs \<Longrightarrow> xs = filter (\<lambda>t. 2 \<le> issue_count t) ts"
proof (induction ts arbitrary: xs)
  case Nil
  then show ?case by simp
next
  case (Cons t ts)
  from Cons.prems obtain a rest where a: "analyze_water_quality t = Inr a"
    and rest: "tanks_at_risk ''critical'' ts = Inr rest"
    and xs: "xs = (if risk_level a = ''critical'' then t # rest else rest)"
    by (auto simp: bind_exn_def split: sum.splits)
  show ?case
    using Cons.IH [OF rest] analyze_water_quality_risk(2) [OF a] xs by auto
qed

lemma tanks_at_risk_warning:
  "tanks_at_risk ''warning'' ts = Inr xs \<Longrightarrow> xs = filter (\<lambda>t. issue_count t = 1) ts"
proof (induction ts arbitrary: xs)
  case Nil
  then show ?case by simp
next
  case (Cons t ts)
  from Cons.prems obtain a rest where a: "analyze_water_quality t = Inr a"
    and rest: "tanks_at_risk ''warning'' ts = Inr rest"
    and xs: "xs = (if risk_level a = ''warning'' then t # rest else rest)"
    by (auto simp: bind_exn_def split: sum.splits)
  show ?case
    using Cons.IH [OF rest] analyze_water_quality_risk(2) [OF a] xs by auto
qed

lemma sample_days: "calculate_days_since_cleaned \<lparr>year = 2025, month = 3, day = 7\<rparr> ''2025-01-01'' = Inr 65"
  by code_simp

text \<open>
  Claim C10. When the rollup returns, \<open>critical_count\<close> is the number of tanks with two
  or more water-quality issues, \<open>warning_count\<close> the number with exactly one, and
  \<open>normal_count\<close> is the total minus both. The issues of a tank do not depend on its
  cleaning date. So the rollup can disagree with the status classifier: the tank with
  pH 7.0, turbidity 0, temperature 20, cleaned 65 days ago, is critical for the classifier
  and has no issue.
\<close>

theorem get_system_analytics_counts:
  assumes "get_system_analytics st = Inr r"
  shows "critical_count r = int (length (filter (\<lambda>t. 2 \<le> issue_count t) (get_tanks st)))
    \<and> warning_count r = int (length (filter (\<lambda>t. issue_count t = 1) (get_tanks st)))
    \<and> total_tanks r = int (length (get_tanks st))
    \<and> normal_count r = total_tanks r - critical_count r - warning_count r
    \<and> issue_count (t\<lparr>last_cleaned := lc, days_since_cleaned := dsc\<rparr>) = issue_count t
    \<and> get_tank_status \<lparr>year = 2025, month = 3, day = 7\<rparr> (sample_tank 7 0 20 ''2025-01-01'')
        = Inr ''critical''
    \<and> issue_count (sample_tank 7 0 20 ''2025-01-01'') = 0"
proof -
  from assms obtain crit warn where
    crit: "tanks_at_risk ''critical'' (get_tanks st) = Inr crit"
    and warn: "tanks_at_risk ''warning'' (get_tanks st) = Inr warn"
    and c: "critical_count r = int (length crit)"
    and w: "warning_count r = int (length warn)"
    and n: "total_tanks r = int (length (get_tanks st))"
    and m: "normal_count r = int (length (get_tanks st)) - int (length crit) - int (length warn)"
    unfolding get_system_analytics_def Let_def bind_exn_def
    by (auto split: sum.splits)
  have status: "get_tank_status \<lparr>year = 2025, month = 3, day = 7\<rparr>
      (sample_tank 7 0 20 ''2025-01-01'') = Inr ''critical''"
    by (simp add: get_tank_status_def Let_def sample_tank_def sample_days)
  have zero: "issue_count (sample_tank 7 0 20 ''2025-01-01'') = 0"
    by (simp add: issue_count_def Let_def sample_tank_def)
  have indep: "issue_count (t\<lparr>last_cleaned := lc, days_since_cleaned := dsc\<rparr>) = issue_count t"
    by (simp add: issue_count_def)
  show ?thesis
    using tanks_at_risk_critical [OF crit] tanks_at_risk_warning [OF warn] c w n m
      status zero indep by simp
qed

text \<open>
  The rollup of the store that holds this one tank counts it as normal.
\<close>

theorem get_system_analytics_counts_normal:
  "\<exists>r. get_system_analytics (warm_store 30) = Inr r
       \<and> critical_count r = 0 \<and> warning_count r = 0 \<and> normal_count r = 1
       \<and> get_tank_status \<lparr>year = 2025, month = 3, day = 7\<rparr> (sample_tank 7 0 20 ''2025-01-01'')
           = Inr ''critical''"
proof -
  have ts: "get_tanks (warm_store 30) = [sample_tank 7 0 20 ''2025-01-01'']"
    by (simp add: get_tanks_def sample_lookups sample_document_def)
  have "\<exists>r. get_system_analytics (warm_store 30) = Inr r"
    by (simp add: get_system_analytics_def Let_def ts analyze_water_quality_def sample_tank_def)
  then obtain r where r: "get_system_analytics (warm_store 30) = Inr r" ..
  have zero: "issue_count (sample_tank 7 0 20 ''2025-01-01'') = 0"
    using get_system_analytics_counts [OF r] by simp
  show ?thesis
    using get_system_analytics_counts [OF r] r
    by (simp add: ts zero)
qed

section \<open>Properties of the fallback predictors\<close>



text \<open>
  A comprehension none of whose elements raises is a \<open>map\<close>.
\<close>

lemma traverse_map:
  "(\<And>x. x \<in> set xs \<Longrightarrow> f x = Inr (g x)) \<Longrightarrow> traverse f xs = Inr (map g xs)"
  by (induction xs) simp_all

lemma forecast_days:
  assumes "0 < toordinal today" and "toordinal today + 7 \<le> MAXORDINAL"
  shows "traverse (forecast_day today avg) [0..<7] =
    Inr (map (\<lambda>i. \<lparr>fc_day = int i + 1,
                      fc_date = strftime (fromordinal (toordinal today + (int i + 1))),
                      predicted_demand_liters = py_int (fmul avg (if i < 5 then 1 else c0_85))\<rparr>)
           [0..<7])"
proof (rule traverse_map)
  fix i :: nat
  assume "i \<in> set [0..<7]"
  then have "i < 7" by simp
  then have "date_add today (int i + 1) = Inr (fromordinal (toordinal today + (int i + 1)))"
    using assms by (simp add: date_add_def Let_def)
  then show "forecast_day today avg i =
      Inr \<lparr>fc_day = int i + 1,
           fc_date = strftime (fromordinal (toordinal today + (int i + 1))),
           predicted_demand_liters = py_int (fmul avg (if i < 5 then 1 else c0_85))\<rparr>"
    by (simp add: forecast_day_def Let_def)
qed

text \<open>
  Claim C2, amended. On a day from which the next seven days are dates of the calendar,
  the demand fallback returns a forecast for every fleet: the average daily consumption
  is the total capacity (a missing capacity counts 0) times 0.15; there are exactly 7
  daily forecasts, numbered 1 to 7, whose demand is \<open>int\<close> of the average times 1.0 on
  days 1 to 5 and times 0.85 on days 6 and 7; and the weekly total is \<open>int\<close> of the
  average times 6.7, where \<open>int\<close> truncates toward zero.
\<close>

theorem forecast_demand_fallback_shape:
  assumes "0 < toordinal today" and "toordinal today + 7 \<le> MAXORDINAL"
  shows "\<exists>f. forecast_demand_fallback today ts = Inr f
           \<and> length (daily_forecasts f) = 7
           \<and> (\<forall>i<7. fc_day (daily_forecasts f ! i) = int i + 1
                 \<and> predicted_demand_liters (daily_forecasts f ! i) =
                     py_int (fmul (avg_daily_consumption ts) (if i < 5 then 1 else c0_85)))
           \<and> weekly_total_demand_liters f = py_int (fmul (avg_daily_consumption ts) c6_7)
           \<and> avg_daily_consumption ts =
               fmul (float_of_int (sum_list (map (\<lambda>t. get_or (capacity_liters t) 0) ts))) c0_15"
proof -
  let ?days = "map (\<lambda>i. \<lparr>fc_day = int i + 1,
                      fc_date = strftime (fromordinal (toordinal today + (int i + 1))),
                      predicted_demand_liters =
                        py_int (fmul (avg_daily_consumption ts) (if i < 5 then 1 else c0_85))\<rparr>)
           [0..<7]"
  have run: "forecast_demand_fallback today ts =
      Inr \<lparr>daily_forecasts = ?days,
           weekly_total_demand_liters = py_int (fmul (avg_daily_consumption ts) c6_7),
           average_daily_demand_liters = py_int (avg_daily_consumption ts)\<rparr>"
    by (simp add: forecast_demand_fallback_def Let_def forecast_days [OF assms])
  have nth: "\<forall>i<7. fc_day (?days ! i) = int i + 1
                 \<and> predicted_demand_liters (?days ! i) =
                     py_int (fmul (avg_daily_consumption ts) (if i < 5 then 1 else c0_85))"
    by (simp del: upt_Suc)
  have avg: "avg_daily_consumption ts =
      fmul (float_of_int (sum_list (map (\<lambda>t. get_or (capacity_liters t) 0) ts))) c0_15"
    by (simp add: avg_daily_consumption_def)
  have len: "length ?days = 7"
    by simp
  show ?thesis
    unfolding run using nth avg len
    by (intro exI [of _ "\<lparr>daily_forecasts = ?days,
           weekly_total_demand_liters = py_int (fmul (avg_daily_consumption ts) c6_7),
           average_daily_demand_liters = py_int (avg_daily_consumption ts)\<rparr>"])
      (simp only: demand_forecast.simps simp_thms)
qed

text \<open>
  A fleet of total capacity 101: the average is 15.15 and 6.7 times it is 101.505.
\<close>

lemma sample_forecast:
  "toordinal \<lparr>year = 2025, month = 7, day = 1\<rparr> = 739433"
  "py_int (fmul (fmul (float_of_int 101) c0_15) c6_7) = 101"
  "py_round (fmul (fmul (float_of_int 101) c0_15) c6_7) = 102"
  "py_int (fmul (fmul (float_of_int 101) c0_15) 1) = 15"
  "py_int (fmul (fmul (float_of_int 101) c0_15) c0_85) = 12"
  by code_simp+

lemma sample_capacity: "avg_daily_consumption [tank_of_capacity 101] = fmul (float_of_int 101) c0_15"
  by (simp add: avg_daily_consumption_def tank_of_capacity_def)

text \<open>
  For that fleet the daily demands are 15 on five days and 12 on two, 99 in sum, and the
  weekly total is 101.
\<close>

theorem forecast_demand_fallback_not_the_sum:
  "\<exists>f. forecast_demand_fallback \<lparr>year = 2025, month = 7, day = 1\<rparr> [tank_of_capacity 101] = Inr f
       \<and> map predicted_demand_liters (daily_forecasts f) = [15, 15, 15, 15, 15, 12, 12]
       \<and> weekly_total_demand_liters f = 101
       \<and> sum_list (map predicted_demand_liters (daily_forecasts f)) = 99"
proof -
  obtain f where f: "forecast_demand_fallback \<lparr>year = 2025, month = 7, day = 1\<rparr>
        [tank_of_capacity 101] = Inr f"
    and len: "length (daily_forecasts f) = 7"
    and days: "\<forall>i<7. fc_day (daily_forecasts f ! i) = int i + 1
                 \<and> predicted_demand_liters (daily_forecasts f ! i) =
                     py_int (fmul (avg_daily_consumption [tank_of_capacity 101])
                       (if i < 5 then 1 else c0_85))"
    and week: "weekly_total_demand_liters f =
        py_int (fmul (avg_daily_consumption [tank_of_capacity 101]) c6_7)"
    using forecast_demand_fallback_shape [of "\<lparr>year = 2025, month = 7, day = 1\<rparr>"
        "[tank_of_capacity 101]"]
    by (auto simp: sample_forecast MAXORDINAL_def)
  have "map predicted_demand_liters (daily_forecasts f) = [15, 15, 15, 15, 15, 12, 12]"
  proof (rule nth_equalityI)
    show "length (map predicted_demand_liters (daily_forecasts f))
            = length [15, 15, 15, 15, 15, 12, 12 :: int]"
      by (simp add: len)
  next
    fix i assume "i < length (map predicted_demand_liters (daily_forecasts f))"
    then have i: "i < 7" by (simp add: len)
    then have "i = 0 \<or> i = 1 \<or> i = 2 \<or> i = 3 \<or> i = 4 \<or> i = 5 \<or> i = 6" by arith
    then show "map predicted_demand_liters (daily_forecasts f) ! i
                 = [15, 15, 15, 15, 15, 12, 12] ! i"
      using days i len by (auto simp: sample_capacity sample_forecast)
  qed
  then show ?thesis
    using f week by (simp add: sample_capacity sample_forecast)
qed

text \<open>
  The claim as stated gives the weekly total as \<open>round\<close> of the average times 6.7. For
  the fleet of capacity 101 that is 102, and the code returns 101.
\<close>

theorem forecast_demand_fallback_truncates:
  "map_sum id weekly_total_demand_liters
      (forecast_demand_fallback \<lparr>year = 2025, month = 7, day = 1\<rparr> [tank_of_capacity 101])
     = Inr 101
   \<and> py_round (fmul (avg_daily_consumption [tank_of_capacity 101]) c6_7) = 102"
  by (simp add: forecast_demand_fallback_def Let_def forecast_days sample_forecast
      MAXORDINAL_def sample_capacity)






section \<open>Properties of the ward aggregator\<close>

text \<open>
  Rounding keeps the sign, and a ward index is one decimal digit.
\<close>

lemma pow2_pos: "0 < pow2 e"
  by (simp add: pow2_def)

lemma round_half_even_nonneg: "0 \<le> q \<Longrightarrow> 0 \<le> round_half_even q"
  unfolding round_half_even_def Let_def by (auto simp: zero_le_floor intro: add_nonneg_nonneg)

lemma rnd_nonneg: "0 \<le> q \<Longrightarrow> 0 \<le> rnd q"
  unfolding rnd_def Let_def
  by (auto intro!: mult_nonneg_nonneg round_half_even_nonneg divide_nonneg_pos
      simp: pow2_pos less_imp_le)

lemma py_str_digit: "0 \<le> d \<Longrightarrow> d < 10 \<Longrightarrow> py_str d = [digit_char d]"
  by (simp add: py_str_def str_nat.simps)

lemma ward_index_range: "0 \<le> ward_index x" "ward_index x < 10"
  by (simp_all add: ward_index_def)

text \<open>
  The loop of \<open>get_ward_geojson\<close> keeps every tank it has put into a ward.
\<close>

lemma map_of_count:
  "map_of (map (\<lambda>(k', w). if k' = k then (k', f w) else (k', w)) wd) k'' =
     (if k'' = k then map_option f (map_of wd k'') else map_of wd k'')"
  by (induction wd) auto

lemma count_tank_tanks: "w_tanks (count_tank t w) = w_tanks w @ [t]"
  by (simp add: count_tank_def Let_def)

lemma add_tank_lookup:
  "map_of (add_tank wd t) k =
     (if k = ward_id_of t
      then Some (count_tank t (case map_of wd k of None \<Rightarrow> new_ward t | Some w \<Rightarrow> w))
      else map_of wd k)"
proof -
  let ?wd1 = "if map_of wd (ward_id_of t) = None then wd @ [(ward_id_of t, new_ward t)] else wd"
  have lookup: "map_of ?wd1 k =
      (if k = ward_id_of t
       then Some (case map_of wd k of None \<Rightarrow> new_ward t | Some w \<Rightarrow> w)
       else map_of wd k)"
    by (auto simp: map_add_def split: option.splits)
  have "add_tank wd t =
      map (\<lambda>(k', w). if k' = ward_id_of t then (k', count_tank t w) else (k', w)) ?wd1"
    by (simp add: add_tank_def Let_def)
  then have "map_of (add_tank wd t) k =
      (if k = ward_id_of t then map_option (count_tank t) (map_of ?wd1 k) else map_of ?wd1 k)"
    by (simp only: map_of_count)
  then show ?thesis
    unfolding lookup by simp
qed

lemma add_tank_here:
  "\<exists>w. map_of (add_tank wd t) (ward_id_of t) = Some w \<and> t \<in> set (w_tanks w)"
  by (simp add: add_tank_lookup count_tank_tanks)

lemma add_tank_keeps:
  assumes "map_of wd k = Some w" and "t \<in> set (w_tanks w)"
  shows "\<exists>w'. map_of (add_tank wd t') k = Some w' \<and> t \<in> set (w_tanks w')"
  using assms by (auto simp: add_tank_lookup count_tank_tanks)

lemma foldl_add_tank_keeps:
  "map_of wd k = Some w \<Longrightarrow> t \<in> set (w_tanks w) \<Longrightarrow>
   \<exists>w'. map_of (foldl add_tank wd ts) k = Some w' \<and> t \<in> set (w_tanks w')"
proof (induction ts arbitrary: wd w)
  case Nil
  then show ?case by simp
next
  case (Cons t' ts)
  from add_tank_keeps [OF Cons.prems, of t'] obtain w' where
    "map_of (add_tank wd t') k = Some w'" "t \<in> set (w_tanks w')" by blast
  from Cons.IH [OF this] show ?case by simp
qed

lemma foldl_add_tank_member:
  "t \<in> set ts \<Longrightarrow>
   \<exists>w. map_of (foldl add_tank wd ts) (ward_id_of t) = Some w \<and> t \<in> set (w_tanks w)"
proof (induction ts arbitrary: wd)
  case Nil
  then show ?case by simp
next
  case (Cons t' ts)
  show ?case
  proof (cases "t = t'")
    case True
    from add_tank_here [of wd t] obtain w where
      "map_of (add_tank wd t) (ward_id_of t) = Some w" "t \<in> set (w_tanks w)" by blast
    from foldl_add_tank_keeps [OF this] show ?thesis using True by simp
  next
    case False
    with Cons.prems have "t \<in> set ts" by simp
    from Cons.IH [OF this] show ?thesis by simp
  qed
qed

text \<open>
  Claim C6, amended. The ward of a tank is \<open>ward_A_B\<close> with \<open>A\<close> the index of its
  latitude and \<open>B\<close> the index of its longitude, where the index of \<open>x\<close> is
  \<open>int(x * 10) mod 10\<close> and \<open>int\<close> truncates toward zero: the floor of \<open>x * 10\<close> for
  \<open>x \<ge> 0\<close> and its ceiling for \<open>x < 0\<close>. Two tanks with the same pair of indices have
  the same ward id, and every tank of the list is among the tanks of the ward of its id.
\<close>

theorem ward_assignment_rule:
  "ward_id_of t = ''ward_'' @ [digit_char (ward_index (tank_lat t))] @ ''_''
                    @ [digit_char (ward_index (tank_lng t))]
   \<and> ward_index x = py_int (fmul x 10) mod 10
   \<and> (0 \<le> x \<longrightarrow> ward_index x = \<lfloor>fmul x 10\<rfloor> mod 10)
   \<and> (x < 0 \<longrightarrow> ward_index x = \<lceil>fmul x 10\<rceil> mod 10)
   \<and> (ward_index (tank_lat t) = ward_index (tank_lat t')
        \<and> ward_index (tank_lng t) = ward_index (tank_lng t') \<longrightarrow> ward_id_of t = ward_id_of t')
   \<and> (t \<in> set ts \<longrightarrow>
        (\<exists>w. map_of (ward_data ts) (ward_id_of t) = Some w \<and> t \<in> set (w_tanks w)))"
proof -
  have id: "ward_id_of u = ''ward_'' @ [digit_char (ward_index (tank_lat u))] @ ''_''
                    @ [digit_char (ward_index (tank_lng u))]" for u
    by (simp add: ward_id_of_def py_str_digit ward_index_range)
  have pos: "ward_index x = \<lfloor>fmul x 10\<rfloor> mod 10" if "0 \<le> x"
  proof -
    from that have "0 \<le> fmul x 10"
      unfolding fmul_def by (intro rnd_nonneg) simp
    then show ?thesis by (simp add: ward_index_def py_int_def)
  qed
  have neg: "ward_index x = \<lceil>fmul x 10\<rceil> mod 10" if "x < 0"
  proof -
    from that have "0 \<le> rnd (- (x * 10))"
      by (intro rnd_nonneg) simp
    then have "fmul x 10 \<le> 0"
      by (simp add: fmul_def rnd_minus)
    then have "py_int (fmul x 10) = \<lceil>fmul x 10\<rceil>"
      by (cases "fmul x 10 = 0") (simp_all add: py_int_def)
    then show ?thesis by (simp add: ward_index_def)
  qed
  have same: "ward_id_of t = ward_id_of t'"
    if "ward_index (tank_lat t) = ward_index (tank_lat t')
        \<and> ward_index (tank_lng t) = ward_index (tank_lng t')"
    using that by (simp add: ward_id_of_def)
  have member: "\<exists>w. map_of (ward_data ts) (ward_id_of t) = Some w \<and> t \<in> set (w_tanks w)"
    if "t \<in> set ts"
    unfolding ward_data_def using that by (rule foldl_add_tank_member)
  have idx: "ward_index x = py_int (fmul x 10) mod 10"
    by (simp add: ward_index_def)
  from id [of t] idx pos neg same member show ?thesis by blast
qed

text \<open>
  The coordinates of the specification, and a southern latitude.
\<close>

lemma sample_coordinates:
  "ward_index (rnd (1234 / 100)) = 3" "ward_index (rnd (5678 / 100)) = 7"
  "ward_index (rnd (1239 / 100)) = 3" "ward_index (rnd (5679 / 100)) = 7"
  "ward_index (rnd (- 1234 / 100)) = 7" "\<lfloor>fmul (rnd (- 1234 / 100)) 10\<rfloor> mod 10 = 6"
  "digit_char 3 = CHR ''3''" "digit_char 7 = CHR ''7''"
  by code_simp+

lemma tank_at_coordinates: "tank_lat (tank_at la lo) = la" "tank_lng (tank_at la lo) = lo"
  by (simp_all add: tank_lat_def tank_lng_def tank_at_def)

text \<open>
  Tanks at (12.34, 56.78) and (12.39, 56.79) both map to \<open>ward_3_7\<close> and are gathered
  in that one ward.
\<close>

theorem ward_assignment_examples:
  "ward_id_of (tank_at (rnd (1234 / 100)) (rnd (5678 / 100))) = ''ward_3_7''
   \<and> ward_id_of (tank_at (rnd (1239 / 100)) (rnd (5679 / 100))) = ''ward_3_7''
   \<and> (\<exists>w. map_of (ward_data [tank_at (rnd (1234 / 100)) (rnd (5678 / 100)), tank_at 1 2,
                               tank_at (rnd (1239 / 100)) (rnd (5679 / 100))]) ''ward_3_7'' = Some w
          \<and> tank_at (rnd (1234 / 100)) (rnd (5678 / 100)) \<in> set (w_tanks w)
          \<and> tank_at (rnd (1239 / 100)) (rnd (5679 / 100)) \<in> set (w_tanks w))"
proof -
  let ?a = "tank_at (rnd (1234 / 100)) (rnd (5678 / 100))"
  let ?b = "tank_at (rnd (1239 / 100)) (rnd (5679 / 100))"
  let ?ts = "[?a, tank_at 1 2, ?b]"
  have a: "ward_id_of ?a = ''ward_3_7''"
    using ward_assignment_rule [of ?a, THEN conjunct1]
    by (simp only: tank_at_coordinates sample_coordinates append.simps)
  have "ward_id_of ?a = ward_id_of ?b"
    using ward_assignment_rule [of ?a _ ?b, THEN conjunct2, THEN conjunct2, THEN conjunct2,
        THEN conjunct2, THEN conjunct1]
    by (simp only: tank_at_coordinates sample_coordinates simp_thms)
  with a have b: "ward_id_of ?b = ''ward_3_7''"
    by simp
  have ina: "?a \<in> set ?ts" and inb: "?b \<in> set ?ts"
    by simp_all
  from ward_assignment_rule [of ?a _ _ ?ts, THEN conjunct2, THEN conjunct2, THEN conjunct2,
      THEN conjunct2, THEN conjunct2, THEN mp, OF ina]
  obtain w where w: "map_of (ward_data ?ts) ''ward_3_7'' = Some w" "?a \<in> set (w_tanks w)"
    unfolding a by blast
  from ward_assignment_rule [of ?b _ _ ?ts, THEN conjunct2, THEN conjunct2, THEN conjunct2,
      THEN conjunct2, THEN conjunct2, THEN mp, OF inb]
  obtain w' where w': "map_of (ward_data ?ts) ''ward_3_7'' = Some w'" "?b \<in> set (w_tanks w')"
    unfolding b by blast
  from w w' have "w' = w" by simp
  with a b w w' show ?thesis by blast
qed

text \<open>
  The claim as stated takes the floor. At latitude -12.34 the floor of \<open>lat * 10\<close> is
  -124, of index 6, and the code computes index 7.
\<close>

theorem ward_assignment_truncates:
  "ward_index (rnd (- 1234 / 100)) = 7
   \<and> \<lfloor>fmul (rnd (- 1234 / 100)) 10\<rfloor> mod 10 = 6
   \<and> ward_id_of (tank_at (rnd (- 1234 / 100)) (rnd (5678 / 100))) = ''ward_7_7''"
  by (simp only: ward_id_of_def tank_at_coordinates sample_coordinates append.simps simp_thms)
    (simp add: py_str_digit sample_coordinates)

section \<open>Checks of the number and calendar models\<close>

text \<open>
  The floats nearest to 0.1, 0.15 and 0.3, the rounding of \<open>round(2.675, 2)\<close> (the float
  2.675 lies below the decimal, so the result is 2.67), the product \<open>12.34 * 10\<close>, and
  the dates that \<open>strptime\<close> accepts and refuses.
\<close>

lemma rnd_examples:
  "rnd (1 / 10) = 3602879701896397 / 36028797018963968"
  "rnd (15 / 100) = 5404319552844595 / 36028797018963968"
  "rnd (3 / 10) = 5404319552844595 / 18014398509481984"
  "py_round_n (rnd (2675 / 1000)) 2 = rnd (267 / 100)"
  "fmul (rnd (1234 / 100)) 10 = rnd (1234 / 10)"
  "fsub (rnd (73 / 10)) 7 < rnd (3 / 10)"
  by code_simp+

lemma strptime_examples:
  "strptime ''2025-06-01'' = Inr \<lparr>year = 2025, month = 6, day = 1\<rparr>"
  "strptime ''2025-6-1'' = Inr \<lparr>year = 2025, month = 6, day = 1\<rparr>"
  "strptime ''2024-02-29'' = Inr \<lparr>year = 2024, month = 2, day = 29\<rparr>"
  "strptime ''2025-02-29'' = Inl ValueError"
  "strptime ''2025-13-01'' = Inl ValueError"
  "strptime ''2025-06-011'' = Inl ValueError"
  "strptime ''0000-06-01'' = Inl ValueError"
  "strptime ''20250601'' = Inl ValueError"
  by code_simp+

lemma ordinal_examples:
  "toordinal \<lparr>year = 1, month = 1, day = 1\<rparr> = 1"
  "toordinal \<lparr>year = 9999, month = 12, day = 31\<rparr> = MAXORDINAL"
  "fromordinal 730120 = \<lparr>year = 2000, month = 1, day = 1\<rparr>"
  "fromordinal (toordinal \<lparr>year = 2024, month = 2, day = 29\<rparr> + 1)
     = \<lparr>year = 2024, month = 3, day = 1\<rparr>"
  "fromordinal MAXORDINAL = \<lparr>year = 9999, month = 12, day = 31\<rparr>"
  by code_simp+

end
